theory Spec2Isabelle
  imports Main "HOL-Library.Word" "HOL-Library.Sublist"
begin

section \<open>JavaScript values seen by the form\<close>

text \<open>
  A JavaScript string is a sequence of UTF-16 code units: \<open>length\<close>, \<open>endsWith\<close>,
  \<open>replace\<close> and regular expressions without the \<open>u\<close> flag all work on code units.
  Error messages are ASCII literals of the source and are kept as HOL strings.
\<close>

type_synonym code_unit = "16 word"
type_synonym jsstring = "code_unit list"

definition js :: "string \<Rightarrow> jsstring" where
  "js s = map of_char s"

text \<open>
  The only thing \<open>handleInputChange\<close> does with a number is \<open>value.toString()\<close>, so a
  number is represented by that rendering. Every number has one; a statement about all
  renderings covers all numbers.
\<close>

datatype jsnumber = Number (toString: jsstring)

text \<open>\<open>value: string | number | boolean\<close>, the argument of \<open>handleInputChange\<close>.\<close>

datatype raw_value = RString jsstring | RNumber jsnumber | RBoolean bool

text \<open>
  \<open>FormData[T]\<close> at run time: a string or a boolean. The casts \<open>as FormData[T]\<close> are
  unchecked, so any field can hold either; the validators then see JavaScript's
  coercions, which are written out below.
\<close>

datatype jsval = JString jsstring | JBoolean bool

text \<open>\<open>!value\<close>\<close>

fun falsy :: "jsval \<Rightarrow> bool" where
  "falsy (JString s) = (s = [])"
| "falsy (JBoolean b) = (\<not> b)"

text \<open>\<open>ToString(value)\<close>, applied by \<open>RegExp.prototype.test\<close> and \<open>parseInt\<close>.\<close>

fun ToString :: "jsval \<Rightarrow> jsstring" where
  "ToString (JString s) = s"
| "ToString (JBoolean b) = (if b then js ''true'' else js ''false'')"

text \<open>\<open>value.length\<close>: \<open>undefined\<close> (\<open>None\<close>) on a boolean.\<close>

fun js_length :: "jsval \<Rightarrow> nat option" where
  "js_length (JString s) = Some (length s)"
| "js_length (JBoolean b) = None"

text \<open>\<open>x < n\<close> and \<open>x !== n\<close> for \<open>x\<close> a length or \<open>undefined\<close>:
  \<open>undefined < n\<close> is false, \<open>undefined !== n\<close> is true.\<close>

fun js_lt :: "nat option \<Rightarrow> nat \<Rightarrow> bool" where
  "js_lt None n = False"
| "js_lt (Some m) n = (m < n)"

fun js_strict_ne :: "nat option \<Rightarrow> nat \<Rightarrow> bool" where
  "js_strict_ne None n = True"
| "js_strict_ne (Some m) n = (m \<noteq> n)"

text \<open>\<open>value.endsWith(t)\<close>: a boolean has no such method and the call throws a
  TypeError (\<open>None\<close>).\<close>

fun endsWith :: "jsval \<Rightarrow> jsstring \<Rightarrow> bool option" where
  "endsWith (JString s) t = Some (length t \<le> length s \<and> drop (length s - length t) s = t)"
| "endsWith (JBoolean b) t = None"

subsection \<open>Character classes\<close>

text \<open>\<open>\d\<close> is \<open>[0-9]\<close>; \<open>\D\<close> is its complement.\<close>

definition is_digit :: "code_unit \<Rightarrow> bool" where
  "is_digit c = (0x30 \<le> c \<and> c \<le> 0x39)"

text \<open>\<open>\s\<close>: ECMAScript WhiteSpace and LineTerminator. \<open>parseInt\<close> trims the same set.\<close>

definition is_space :: "code_unit \<Rightarrow> bool" where
  "is_space c =
     (c = 0x09 \<or> c = 0x0A \<or> c = 0x0B \<or> c = 0x0C \<or> c = 0x0D \<or> c = 0x20 \<or> c = 0xA0 \<or>
      c = 0x1680 \<or> (0x2000 \<le> c \<and> c \<le> 0x200A) \<or> c = 0x2028 \<or> c = 0x2029 \<or>
      c = 0x202F \<or> c = 0x205F \<or> c = 0x3000 \<or> c = 0xFEFF)"

text \<open>\<open>[^\s@]\<close>\<close>

definition not_space_at :: "code_unit \<Rightarrow> bool" where
  "not_space_at c = (\<not> (is_space c \<or> c = 0x40))"

text \<open>\<open>[!@#$%^&*]\<close>\<close>

definition is_special :: "code_unit \<Rightarrow> bool" where
  "is_special c =
     (c = 0x21 \<or> c = 0x40 \<or> c = 0x23 \<or> c = 0x24 \<or> c = 0x25 \<or> c = 0x5E \<or> c = 0x26 \<or>
      c = 0x2A)"

subsection \<open>Regular expressions\<close>

text \<open>
  The patterns of the source use character classes, literal characters, sequencing and
  \<open>+\<close> only, with no captures or flags, so \<open>test\<close> decides membership in a regular
  language. The matcher consumes the input one code unit at a time, rewriting the
  expression to what may still follow.
\<close>

datatype regex =
    Fail
  | Empty
  | Class "code_unit \<Rightarrow> bool"
  | Or regex regex
  | Then regex regex
  | Many regex

text \<open>\<open>r+\<close>, a literal character, and any code unit at all.\<close>

definition OneOrMore :: "regex \<Rightarrow> regex" where
  "OneOrMore r = Then r (Many r)"

definition Lit :: "code_unit \<Rightarrow> regex" where
  "Lit a = Class (\<lambda>c. c = a)"

definition Anything :: regex where
  "Anything = Many (Class (\<lambda>c. True))"

fun accepts_empty :: "regex \<Rightarrow> bool" where
  "accepts_empty Fail = False"
| "accepts_empty Empty = True"
| "accepts_empty (Class P) = False"
| "accepts_empty (Or r s) = (accepts_empty r \<or> accepts_empty s)"
| "accepts_empty (Then r s) = (accepts_empty r \<and> accepts_empty s)"
| "accepts_empty (Many r) = True"

fun after :: "code_unit \<Rightarrow> regex \<Rightarrow> regex" where
  "after c Fail = Fail"
| "after c Empty = Fail"
| "after c (Class P) = (if P c then Empty else Fail)"
| "after c (Or r s) = Or (after c r) (after c s)"
| "after c (Then r s) =
     (if accepts_empty r then Or (Then (after c r) s) (after c s) else Then (after c r) s)"
| "after c (Many r) = Then (after c r) (Many r)"

fun matches_whole :: "regex \<Rightarrow> jsstring \<Rightarrow> bool" where
  "matches_whole r [] = accepts_empty r"
| "matches_whole r (c # cs) = matches_whole (after c r) cs"

text \<open>A pattern between \<open>^\<close> and \<open>$\<close> must match the whole input; without anchors
  \<open>test\<close> succeeds when some substring matches.\<close>

datatype pattern = Anchored regex | Unanchored regex

fun test :: "pattern \<Rightarrow> jsstring \<Rightarrow> bool" where
  "test (Anchored r) s = matches_whole r s"
| "test (Unanchored r) s = matches_whole (Then Anything (Then r Anything)) s"

text \<open>\<open>/^[^\s@]+@[^\s@]+\.[^\s@]+$/\<close>\<close>

definition emailRegex :: pattern where
  "emailRegex =
     Anchored (Then (OneOrMore (Class not_space_at))
              (Then (Lit 0x40)
              (Then (OneOrMore (Class not_space_at))
              (Then (Lit 0x2E)
                    (OneOrMore (Class not_space_at))))))"

text \<open>\<open>/\d/\<close>, \<open>/[!@#$%^&*]/\<close> and \<open>/^\d+$/\<close>\<close>

definition digitRegex :: pattern where
  "digitRegex = Unanchored (Class is_digit)"

definition specialRegex :: pattern where
  "specialRegex = Unanchored (Class is_special)"

definition digitsOnlyRegex :: pattern where
  "digitsOnlyRegex = Anchored (OneOrMore (Class is_digit))"

text \<open>\<open>s.replace(/\D/g, "")\<close>: every code unit that is not a digit is removed.\<close>

definition strip_non_digits :: "jsstring \<Rightarrow> jsstring" where
  "strip_non_digits s = filter is_digit s"

subsection \<open>parseInt\<close>

text \<open>
  \<open>parseInt(string)\<close> with no radix: leading white space is dropped, then an optional
  sign, then \<open>0x\<close> or \<open>0X\<close> selects radix 16 (otherwise 10); the longest prefix of digits
  of that radix is read, and everything after it is ignored. No digit at all gives NaN.

  The result is a double. An integer of magnitude up to \<open>2^53\<close> is a double as it stands
  (\<open>Exact\<close>; \<open>-0\<close> compares as \<open>0\<close> and is kept as \<open>Exact 0\<close>). A larger one is rounded,
  and beyond 20 digits the standard leaves the digits read to the engine; rounding is
  monotone, so all that is kept of such a result is its sign and that its magnitude is
  at least \<open>2^53\<close>, possibly infinite (\<open>Rounded\<close>, \<open>True\<close> for a negative one).
\<close>

datatype parsed = NaN | Exact int | Rounded bool

definition to_double :: "int \<Rightarrow> parsed" where
  "to_double n = (if \<bar>n\<bar> \<le> 2 ^ 53 then Exact n else Rounded (n < 0))"

text \<open>\<open>isNaN(x)\<close>, and \<open>x < k\<close> and \<open>x > k\<close> for an integer constant \<open>k\<close> of the source, of
  magnitude below \<open>2^53\<close>. A comparison with NaN is false.\<close>

fun isNaN :: "parsed \<Rightarrow> bool" where
  "isNaN NaN = True"
| "isNaN (Exact n) = False"
| "isNaN (Rounded negative) = False"

fun less_than :: "parsed \<Rightarrow> int \<Rightarrow> bool" where
  "less_than NaN k = False"
| "less_than (Exact n) k = (n < k)"
| "less_than (Rounded negative) k = negative"

fun greater_than :: "parsed \<Rightarrow> int \<Rightarrow> bool" where
  "greater_than NaN k = False"
| "greater_than (Exact n) k = (n > k)"
| "greater_than (Rounded negative) k = (\<not> negative)"

definition digit_value :: "code_unit \<Rightarrow> nat" where
  "digit_value c =
     (if 0x30 \<le> c \<and> c \<le> 0x39 then unat c - 0x30
      else if 0x61 \<le> c \<and> c \<le> 0x7A then unat c - 0x61 + 10
      else if 0x41 \<le> c \<and> c \<le> 0x5A then unat c - 0x41 + 10
      else 36)"

definition is_radix_digit :: "nat \<Rightarrow> code_unit \<Rightarrow> bool" where
  "is_radix_digit R c = (digit_value c < R)"

definition radix_value :: "nat \<Rightarrow> jsstring \<Rightarrow> nat" where
  "radix_value R z = foldl (\<lambda>acc c. acc * R + digit_value c) 0 z"

fun strip_sign :: "jsstring \<Rightarrow> int \<times> jsstring" where
  "strip_sign [] = (1, [])"
| "strip_sign (c # cs) =
     (if c = 0x2D then (- 1, cs) else if c = 0x2B then (1, cs) else (1, c # cs))"

fun strip_prefix :: "jsstring \<Rightarrow> nat \<times> jsstring" where
  "strip_prefix (a # b # cs) =
     (if a = 0x30 \<and> (b = 0x78 \<or> b = 0x58) then (16, cs) else (10, a # b # cs))"
| "strip_prefix cs = (10, cs)"

definition parseInt :: "jsstring \<Rightarrow> parsed" where
  "parseInt inputString =
     (let (sign, S) = strip_sign (dropWhile is_space inputString);
          (R, S') = strip_prefix S;
          Z = takeWhile (is_radix_digit R) S'
      in if Z = [] then NaN else to_double (sign * int (radix_value R Z)))"

section \<open>The validation table\<close>

text \<open>
  One validator per field, each a chain of checks in which the first failure returns.
  \<open>None\<close> stands for an exception leaving the validator; only \<open>endsWith\<close> can raise
  one.
\<close>

datatype field = FullName | Email | Password | Phone | Age | AgreeToTerms | Country

definition validateField_fullName :: "jsval \<Rightarrow> string option" where
  "validateField_fullName v =
     (if falsy v then Some ''Full name is required''
      else if js_lt (js_length v) 3 then Some ''Full name must be at least 3 characters''
      else Some [])"

definition validateField_email :: "jsval \<Rightarrow> string option" where
  "validateField_email v =
     (if falsy v then Some ''Email is required''
      else if \<not> test emailRegex (ToString v) then Some ''Please enter a valid email address''
      else (case endsWith v (js ''.com'') of
              None \<Rightarrow> None
            | Some True \<Rightarrow> Some []
            | Some False \<Rightarrow>
                (case endsWith v (js ''.net'') of
                   None \<Rightarrow> None
                 | Some True \<Rightarrow> Some []
                 | Some False \<Rightarrow> Some ''Email must end with .com or .net'')))"

definition validateField_password :: "jsval \<Rightarrow> string option" where
  "validateField_password v =
     (if falsy v then Some ''Password is required''
      else if js_lt (js_length v) 8 then Some ''Password must be at least 8 characters''
      else if \<not> test digitRegex (ToString v)
        then Some ''Password must include at least one number''
      else if \<not> test specialRegex (ToString v)
        then Some ''Password must include at least one special character''
      else Some [])"

definition validateField_phone :: "jsval \<Rightarrow> string option" where
  "validateField_phone v =
     (if falsy v then Some ''Phone number is required''
      else if \<not> test digitsOnlyRegex (ToString v) then Some ''Please enter numbers only''
      else if js_strict_ne (js_length v) 10
        then Some ''Please enter a valid 10-digit phone number''
      else Some [])"

definition validateField_age :: "jsval \<Rightarrow> string option" where
  "validateField_age v =
     (if falsy v then Some ''Age is required''
      else (let age = parseInt (ToString v) in
            if isNaN age \<or> less_than age 18 \<or> greater_than age 65
              then Some ''Age must be between 18 and 65''
            else Some []))"

definition validateField_country :: "jsval \<Rightarrow> string option" where
  "validateField_country v = (if falsy v then Some ''Please select a country'' else Some [])"

definition validateField_agreeToTerms :: "jsval \<Rightarrow> string option" where
  "validateField_agreeToTerms v =
     (if falsy v then Some ''You must agree to the terms'' else Some [])"

text \<open>\<open>validateField[fieldName]\<close>\<close>

fun validateField :: "field \<Rightarrow> jsval \<Rightarrow> string option" where
  "validateField FullName v = validateField_fullName v"
| "validateField Email v = validateField_email v"
| "validateField Password v = validateField_password v"
| "validateField Phone v = validateField_phone v"
| "validateField Age v = validateField_age v"
| "validateField Country v = validateField_country v"
| "validateField AgreeToTerms v = validateField_agreeToTerms v"

section \<open>The component state and its handlers\<close>

record FormData =
  fullName :: jsval
  email :: jsval
  password :: jsval
  phone :: jsval
  age :: jsval
  agreeToTerms :: jsval
  country :: jsval

text \<open>\<open>formData[field]\<close> and \<open>{...prev, [fieldName]: value}\<close>\<close>

fun get_field :: "field \<Rightarrow> FormData \<Rightarrow> jsval" where
  "get_field FullName d = fullName d"
| "get_field Email d = email d"
| "get_field Password d = password d"
| "get_field Phone d = phone d"
| "get_field Age d = age d"
| "get_field AgreeToTerms d = agreeToTerms d"
| "get_field Country d = country d"

fun set_field :: "field \<Rightarrow> jsval \<Rightarrow> FormData \<Rightarrow> FormData" where
  "set_field FullName v d = d\<lparr>fullName := v\<rparr>"
| "set_field Email v d = d\<lparr>email := v\<rparr>"
| "set_field Password v d = d\<lparr>password := v\<rparr>"
| "set_field Phone v d = d\<lparr>phone := v\<rparr>"
| "set_field Age v d = d\<lparr>age := v\<rparr>"
| "set_field AgreeToTerms v d = d\<lparr>agreeToTerms := v\<rparr>"
| "set_field Country v d = d\<lparr>country := v\<rparr>"

text \<open>\<open>Object.keys(formData)\<close>, in insertion order.\<close>

definition keys :: "field list" where
  "keys = [FullName, Email, Password, Phone, Age, AgreeToTerms, Country]"

text \<open>The five \<open>useState\<close> cells. \<open>errors\<close> starts as the empty object.\<close>

record form_state =
  selectedCountry :: jsstring
  formData :: FormData
  errors :: "field \<rightharpoonup> string"
  isSubmitted :: bool
  isFormValid :: bool

definition initial :: form_state where
  "initial =
     \<lparr> selectedCountry = [],
       formData = \<lparr> fullName = JString [], email = JString [], password = JString [],
                    phone = JString [], age = JString [], agreeToTerms = JBoolean False,
                    country = JString [] \<rparr>,
       errors = Map.empty,
       isSubmitted = False,
       isFormValid = False \<rparr>"

text \<open>The normalisation at the head of \<open>handleInputChange\<close>.\<close>

fun convert :: "raw_value \<Rightarrow> jsval" where
  "convert (RNumber n) = JString (toString n)"
| "convert (RBoolean b) = JBoolean b"
| "convert (RString s) = JString s"

fun strip_if_phone :: "field \<Rightarrow> jsval \<Rightarrow> jsval" where
  "strip_if_phone fieldName (JString s) =
     (if fieldName = Phone then JString (strip_non_digits s) else JString s)"
| "strip_if_phone fieldName (JBoolean b) = JBoolean b"

definition processedValue :: "raw_value \<Rightarrow> field \<Rightarrow> jsval" where
  "processedValue v fieldName = strip_if_phone fieldName (convert v)"

definition handleInputChange :: "raw_value \<Rightarrow> field \<Rightarrow> form_state \<Rightarrow> form_state option" where
  "handleInputChange v fieldName st =
     (let p = processedValue v fieldName in
      case validateField fieldName p of
        None \<Rightarrow> None
      | Some error \<Rightarrow>
          Some (st\<lparr> formData := set_field fieldName p (formData st),
                   errors := (errors st)(fieldName \<mapsto> error) \<rparr>))"

definition handleCountryChange :: "jsstring \<Rightarrow> form_state \<Rightarrow> form_state option" where
  "handleCountryChange v st =
     handleInputChange (RString v) Country (st\<lparr> selectedCountry := v \<rparr>)"

definition handleCheckboxChange :: "form_state \<Rightarrow> form_state" where
  "handleCheckboxChange st =
     (let newValue = falsy (agreeToTerms (formData st)) in
      st\<lparr> formData := (formData st)\<lparr> agreeToTerms := JBoolean newValue \<rparr>,
          errors := (errors st)(AgreeToTerms \<mapsto>
                      (if newValue then [] else ''You must agree to the terms'')) \<rparr>)"

text \<open>
  The body of the effect on \<open>[formData, selectedCountry]\<close>. \<open>if (error)\<close> is true for a
  non-empty message.
\<close>

fun all_pass :: "FormData \<Rightarrow> field list \<Rightarrow> bool option" where
  "all_pass d [] = Some True"
| "all_pass d (f # fs) =
     (case validateField f (get_field f d) of
        None \<Rightarrow> None
      | Some error \<Rightarrow>
          (case all_pass d fs of None \<Rightarrow> None | Some valid \<Rightarrow> Some (error = [] \<and> valid)))"

definition validityEffect :: "form_state \<Rightarrow> form_state option" where
  "validityEffect st =
     (case all_pass (formData st) keys of
        None \<Rightarrow> None
      | Some valid \<Rightarrow>
          (case validateField_country (JString (selectedCountry st)) of
             None \<Rightarrow> None
           | Some countryError \<Rightarrow>
               Some (st\<lparr> isFormValid := (valid \<and> countryError = []) \<rparr>)))"

text \<open>\<open>handleSubmit\<close> returns the new state and what it logged, if anything.\<close>

definition handleSubmit :: "form_state \<Rightarrow> form_state \<times> FormData option" where
  "handleSubmit st =
     (if isFormValid st
      then (st\<lparr> isSubmitted := True \<rparr>,
            Some ((formData st)\<lparr> country := JString (selectedCountry st) \<rparr>))
      else (st, None))"

subsection \<open>Operations as the page runs them\<close>

text \<open>
  Every handler but \<open>handleSubmit\<close> replaces \<open>formData\<close>, so the effect runs after it,
  before the next event. \<open>handleSubmit\<close> changes neither dependency.
\<close>

definition update :: "field \<Rightarrow> raw_value \<Rightarrow> form_state \<Rightarrow> form_state option" where
  "update f v st =
     (case handleInputChange v f st of None \<Rightarrow> None | Some st' \<Rightarrow> validityEffect st')"

definition setCountry :: "jsstring \<Rightarrow> form_state \<Rightarrow> form_state option" where
  "setCountry v st =
     (case handleCountryChange v st of None \<Rightarrow> None | Some st' \<Rightarrow> validityEffect st')"

definition toggleAgreement :: "form_state \<Rightarrow> form_state option" where
  "toggleAgreement st = validityEffect (handleCheckboxChange st)"

definition submit :: "form_state \<Rightarrow> form_state \<times> FormData option" where
  "submit st = handleSubmit st"

datatype lifecycle = Editing | Submitted

definition lifecycle_of :: "form_state \<Rightarrow> lifecycle" where
  "lifecycle_of st = (if isSubmitted st then Submitted else Editing)"

text \<open>
  The states the page can be in: the mounted form, and whatever an event leads to from a
  state that still renders the form (once submitted, no input is on the page).
\<close>

inductive reachable :: "form_state \<Rightarrow> bool" where
  mounted: "reachable initial"
| after_update:
    "reachable st \<Longrightarrow> \<not> isSubmitted st \<Longrightarrow> update f v st = Some st' \<Longrightarrow> reachable st'"
| after_setCountry:
    "reachable st \<Longrightarrow> \<not> isSubmitted st \<Longrightarrow> setCountry c st = Some st' \<Longrightarrow> reachable st'"
| after_toggleAgreement:
    "reachable st \<Longrightarrow> \<not> isSubmitted st \<Longrightarrow> toggleAgreement st = Some st' \<Longrightarrow> reachable st'"
| after_submit:
    "reachable st \<Longrightarrow> \<not> isSubmitted st \<Longrightarrow> reachable (fst (submit st))"

section \<open>Notions used to state the properties\<close>

text \<open>The language of a regular expression, against which the matcher is justified.\<close>

inductive_set repeat :: "jsstring set \<Rightarrow> jsstring set" for A where
  repeat_none: "[] \<in> repeat A"
| repeat_more: "u \<in> A \<Longrightarrow> v \<in> repeat A \<Longrightarrow> u @ v \<in> repeat A"

fun lang :: "regex \<Rightarrow> jsstring set" where
  "lang Fail = {}"
| "lang Empty = {[]}"
| "lang (Class P) = {[c] | c. P c}"
| "lang (Or r s) = lang r \<union> lang s"
| "lang (Then r s) = {u @ v | u v. u \<in> lang r \<and> v \<in> lang s}"
| "lang (Many r) = repeat (lang r)"

text \<open>
  The shape \<open>local@domain.tld\<close>: three non-empty parts free of white space and \<open>@\<close>,
  joined by one \<open>@\<close> and one dot.
\<close>

definition local_at_domain_tld :: "jsstring \<Rightarrow> bool" where
  "local_at_domain_tld v =
     (\<exists>l d t. v = l @ [0x40] @ d @ [0x2E] @ t \<and> l \<noteq> [] \<and> d \<noteq> [] \<and> t \<noteq> [] \<and>
        list_all not_space_at l \<and> list_all not_space_at d \<and> list_all not_space_at t)"

text \<open>
  An integer written out as a string, in the ordinary sense: an optional sign followed by
  decimal digits and nothing else. \<open>integer_in_range\<close> holds of such a string when the
  integer it denotes lies between 18 and 65.
\<close>

fun units_first :: "jsstring \<Rightarrow> nat" where
  "units_first [] = 0"
| "units_first (c # cs) = (unat c - 48) + 10 * units_first cs"

definition decimal_value :: "jsstring \<Rightarrow> nat" where
  "decimal_value ds = units_first (rev ds)"

definition is_decimal :: "jsstring \<Rightarrow> bool" where
  "is_decimal ds = (ds \<noteq> [] \<and> list_all (\<lambda>c. c \<in> set (js ''0123456789'')) ds)"

fun integer_numeral :: "jsstring \<Rightarrow> int option" where
  "integer_numeral [] = None"
| "integer_numeral (c # cs) =
     (if c = 0x2D then (if is_decimal cs then Some (- int (decimal_value cs)) else None)
      else if c = 0x2B then (if is_decimal cs then Some (int (decimal_value cs)) else None)
      else if is_decimal (c # cs) then Some (int (decimal_value (c # cs)))
      else None)"

definition integer_in_range :: "jsstring \<Rightarrow> bool" where
  "integer_in_range v =
     (case integer_numeral v of None \<Rightarrow> False | Some n \<Rightarrow> 18 \<le> n \<and> n \<le> 65)"

text \<open>
  Overall validity as a property of the values alone: every field's validator accepts
  what \<open>formData\<close> holds for it, and the country validator accepts the selected country.
\<close>

definition overall_valid :: "form_state \<Rightarrow> bool" where
  "overall_valid st =
     ((\<forall>f. validateField f (get_field f (formData st)) = Some []) \<and>
      validateField Country (JString (selectedCountry st)) = Some [])"

text \<open>
  The events the rendered form can raise, and a run of them from a state. Once the form
  is submitted it is no longer rendered, so no further event can be raised (\<open>None\<close>).
\<close>

datatype event = Change field raw_value | SelectCountry jsstring | ClickCheckbox | SubmitForm

fun fire :: "event \<Rightarrow> form_state \<Rightarrow> form_state option" where
  "fire (Change f v) st = update f v st"
| "fire (SelectCountry c) st = setCountry c st"
| "fire ClickCheckbox st = toggleAgreement st"
| "fire SubmitForm st = Some (fst (submit st))"

fun session :: "event list \<Rightarrow> form_state \<Rightarrow> form_state option" where
  "session [] st = Some st"
| "session (e # es) st =
     (if isSubmitted st then None
      else case fire e st of None \<Rightarrow> None | Some st' \<Rightarrow> session es st')"

text \<open>
  A filled-in, rule-compliant form and the events that produce it from the mounted
  form.
\<close>

definition john_doe :: form_state where
  "john_doe =
     \<lparr> selectedCountry = js ''usa'',
       formData = \<lparr> fullName = JString (js ''John Doe''), email = JString (js ''john@test.com''),
                    password = JString (js ''Abcdef1!''), phone = JString (js ''1234567890''),
                    age = JString (js ''30''), agreeToTerms = JBoolean True,
                    country = JString (js ''usa'') \<rparr>,
       errors = [FullName \<mapsto> [], Email \<mapsto> [], Password \<mapsto> [], Phone \<mapsto> [], Age \<mapsto> [],
                 Country \<mapsto> [], AgreeToTerms \<mapsto> []],
       isSubmitted = False,
       isFormValid = True \<rparr>"

definition john_doe_events :: "event list" where
  "john_doe_events =
     [Change FullName (RString (js ''John Doe'')), Change Email (RString (js ''john@test.com'')),
      Change Password (RString (js ''Abcdef1!'')), Change Phone (RString (js ''1234567890'')),
      Change Age (RString (js ''30'')), SelectCountry (js ''usa''), ClickCheckbox]"

section \<open>The matcher decides the language\<close>

lemma accepts_empty_lang: "accepts_empty r \<longleftrightarrow> [] \<in> lang r"
  by (induction r) (auto intro: repeat_none)

lemma repeat_cons_split:
  assumes "w \<in> repeat A" and "w = c # s"
  shows "\<exists>u v. s = u @ v \<and> c # u \<in> A \<and> v \<in> repeat A"
  using assms
proof (induction arbitrary: s rule: repeat.induct)
  case repeat_none
  then show ?case by simp
next
  case (repeat_more u v)
  show ?case
  proof (cases u)
    case Nil
    with repeat_more show ?thesis by simp
  next
    case (Cons a u')
    with repeat_more.prems have "a = c" and "s = u' @ v" by simp_all
    with Cons repeat_more.hyps show ?thesis by blast
  qed
qed

lemma repeat_cons_iff:
  "c # s \<in> repeat A \<longleftrightarrow> (\<exists>u v. s = u @ v \<and> c # u \<in> A \<and> v \<in> repeat A)"
proof
  assume "c # s \<in> repeat A"
  then show "\<exists>u v. s = u @ v \<and> c # u \<in> A \<and> v \<in> repeat A"
    by (rule repeat_cons_split) simp
next
  assume "\<exists>u v. s = u @ v \<and> c # u \<in> A \<and> v \<in> repeat A"
  then obtain u v where "s = u @ v" "c # u \<in> A" "v \<in> repeat A" by blast
  then show "c # s \<in> repeat A"
    using repeat_more [of "c # u" A v] by simp
qed

lemma lang_after: "s \<in> lang (after c r) \<longleftrightarrow> c # s \<in> lang r"
proof (induction r arbitrary: s)
  case (Then r1 r2)
  have "c # s \<in> lang (Then r1 r2) \<longleftrightarrow>
        ([] \<in> lang r1 \<and> c # s \<in> lang r2) \<or> (\<exists>u v. s = u @ v \<and> c # u \<in> lang r1 \<and> v \<in> lang r2)"
    by (auto simp: Cons_eq_append_conv)
  with Then show ?case
    by (auto simp: accepts_empty_lang)
next
  case (Many r)
  then show ?case
    by (auto simp: repeat_cons_iff)
qed auto

lemma matches_whole_lang: "matches_whole r s \<longleftrightarrow> s \<in> lang r"
  by (induction s arbitrary: r) (simp_all add: accepts_empty_lang lang_after)

lemma repeat_Class: "repeat {[c] | c. P c} = {s. list_all P s}"
proof (rule set_eqI, rule iffI)
  fix s assume "s \<in> repeat {[c] | c. P c}"
  then show "s \<in> {s. list_all P s}"
    by (induction rule: repeat.induct) auto
next
  fix s assume "s \<in> {s. list_all P s}"
  then have "list_all P s" by simp
  then show "s \<in> repeat {[c] | c. P c}"
  proof (induction s)
    case Nil
    show ?case by (rule repeat_none)
  next
    case (Cons a s)
    then have "[a] \<in> {[c] | c. P c}" and "s \<in> repeat {[c] | c. P c}" by simp_all
    then have "[a] @ s \<in> repeat {[c] | c. P c}" by (rule repeat_more)
    then show ?case by simp
  qed
qed

lemma lang_Then_Class:
  "w \<in> lang (Then (Class P) r) \<longleftrightarrow> (\<exists>c v. w = c # v \<and> P c \<and> v \<in> lang r)"
proof -
  have "w \<in> lang (Then (Class P) r) \<longleftrightarrow>
        (\<exists>u v. w = u @ v \<and> (\<exists>c. u = [c] \<and> P c) \<and> v \<in> lang r)"
    by simp
  also have "\<dots> \<longleftrightarrow> (\<exists>c v. w = [c] @ v \<and> P c \<and> v \<in> lang r)"
    by blast
  finally show ?thesis by simp
qed

lemma lang_Then: "w \<in> lang (Then r s) \<longleftrightarrow> (\<exists>u v. w = u @ v \<and> u \<in> lang r \<and> v \<in> lang s)"
  by auto

lemma lang_Many_Class: "s \<in> lang (Many (Class P)) \<longleftrightarrow> list_all P s"
  by (simp add: repeat_Class)

lemma lang_OneOrMore_Class: "s \<in> lang (OneOrMore (Class P)) \<longleftrightarrow> s \<noteq> [] \<and> list_all P s"
proof -
  have "s \<in> lang (OneOrMore (Class P)) \<longleftrightarrow> (\<exists>c v. s = c # v \<and> P c \<and> list_all P v)"
    unfolding OneOrMore_def by (simp add: lang_Then_Class lang_Many_Class del: lang.simps)
  also have "\<dots> \<longleftrightarrow> s \<noteq> [] \<and> list_all P s"
    by (cases s) auto
  finally show ?thesis .
qed

lemma lang_Anything: "s \<in> lang Anything"
  using lang_Many_Class [of s "\<lambda>c. True"] by (simp add: Anything_def list_all_iff)

lemma lang_Lit: "s \<in> lang (Lit a) \<longleftrightarrow> s = [a]"
  by (auto simp: Lit_def)

lemma test_Anchored_OneOrMore:
  "test (Anchored (OneOrMore (Class P))) s \<longleftrightarrow> s \<noteq> [] \<and> list_all P s"
  by (simp add: matches_whole_lang lang_OneOrMore_Class)

lemma test_Unanchored_Class: "test (Unanchored (Class P)) s \<longleftrightarrow> (\<exists>c \<in> set s. P c)"
proof -
  have "test (Unanchored (Class P)) s \<longleftrightarrow>
        (\<exists>u w. s = u @ w \<and> w \<in> lang (Then (Class P) Anything))"
    by (simp add: matches_whole_lang lang_Then [of s Anything] lang_Anything del: lang.simps)
  also have "\<dots> \<longleftrightarrow> (\<exists>u c v. s = u @ c # v \<and> P c)"
    by (simp add: lang_Then_Class lang_Anything del: lang.simps) blast
  also have "\<dots> \<longleftrightarrow> (\<exists>c \<in> set s. P c)"
    by (metis in_set_conv_decomp)
  finally show ?thesis .
qed

lemma test_emailRegex: "test emailRegex v \<longleftrightarrow> local_at_domain_tld v"
  unfolding emailRegex_def local_at_domain_tld_def test.simps matches_whole_lang
  apply (simp add: lang_Then lang_OneOrMore_Class lang_Lit del: lang.simps)
  apply blast
  done

lemma endsWith_suffix: "endsWith (JString s) t = Some (suffix t s)"
proof -
  have "length t \<le> length s \<and> drop (length s - length t) s = t \<longleftrightarrow> suffix t s"
  proof
    assume "length t \<le> length s \<and> drop (length s - length t) s = t"
    then have "s = take (length s - length t) s @ t" by (metis append_take_drop_id)
    then show "suffix t s" by (rule suffixI)
  next
    assume "suffix t s"
    then obtain u where "s = u @ t" by (auto simp: suffix_def)
    then show "length t \<le> length s \<and> drop (length s - length t) s = t" by simp
  qed
  then show ?thesis by simp
qed

section \<open>What the validators compute\<close>

lemmas eval_defs = js_def emailRegex_def digitRegex_def specialRegex_def digitsOnlyRegex_def
  OneOrMore_def Lit_def Anything_def not_space_at_def is_space_def is_digit_def is_special_def

lemma fullName_string:
  "validateField_fullName (JString v) =
     Some (if v = [] then ''Full name is required''
           else if length v < 3 then ''Full name must be at least 3 characters''
           else [])"
  by (simp add: validateField_fullName_def)

lemma email_string:
  "validateField_email (JString v) =
     Some (if v = [] then ''Email is required''
           else if \<not> local_at_domain_tld v then ''Please enter a valid email address''
           else if \<not> suffix (js ''.com'') v \<and> \<not> suffix (js ''.net'') v
             then ''Email must end with .com or .net''
           else [])"
  by (simp add: validateField_email_def test_emailRegex endsWith_suffix del: endsWith.simps
      split: bool.splits)

lemma password_string:
  "validateField_password (JString v) =
     Some (if v = [] then ''Password is required''
           else if length v < 8 then ''Password must be at least 8 characters''
           else if \<not> (\<exists>c \<in> set v. is_digit c) then ''Password must include at least one number''
           else if \<not> (\<exists>c \<in> set v. is_special c)
             then ''Password must include at least one special character''
           else [])"
  by (simp add: validateField_password_def digitRegex_def specialRegex_def
      test_Unanchored_Class del: test.simps)

lemma phone_string:
  "validateField_phone (JString v) =
     Some (if v = [] then ''Phone number is required''
           else if \<not> list_all is_digit v then ''Please enter numbers only''
           else if length v \<noteq> 10 then ''Please enter a valid 10-digit phone number''
           else [])"
  by (simp add: validateField_phone_def digitsOnlyRegex_def test_Anchored_OneOrMore
      del: test.simps)

lemma email_boolean: "validateField_email (JBoolean b) \<noteq> None"
  by (cases b) (simp_all add: validateField_email_def eval_defs)

lemma validateField_total: "validateField f v \<noteq> None"
proof (cases f)
  case Email
  then show ?thesis
    by (cases v) (simp_all add: email_string email_boolean)
next
  case Age
  then show ?thesis
    by (simp add: validateField_age_def Let_def)
qed (simp_all add: validateField_fullName_def validateField_password_def
      validateField_phone_def validateField_country_def validateField_agreeToTerms_def)

lemma validateField_Some: "\<exists>e. validateField f v = Some e"
  using validateField_total [of f v] by auto

lemma all_pass_eq:
  "all_pass d fs = Some (list_all (\<lambda>f. validateField f (get_field f d) = Some []) fs)"
proof (induction fs)
  case Nil
  show ?case by simp
next
  case (Cons f fs)
  obtain e where "validateField f (get_field f d) = Some e"
    using validateField_Some by blast
  with Cons show ?case by simp
qed

lemma keys_all: "list_all P keys \<longleftrightarrow> (\<forall>f. P f)"
proof
  assume "list_all P keys"
  then show "\<forall>f. P f"
    by (intro allI, case_tac f) (simp_all add: keys_def)
next
  assume "\<forall>f. P f"
  then show "list_all P keys" by (simp add: list_all_iff)
qed

lemma validityEffect_eq: "validityEffect st = Some (st\<lparr> isFormValid := overall_valid st \<rparr>)"
proof -
  obtain e where e: "validateField_country (JString (selectedCountry st)) = Some e"
    using validateField_Some [of Country] by auto
  then show ?thesis
    by (simp add: validityEffect_def all_pass_eq keys_all overall_valid_def)
qed

lemma handleInputChange_eq:
  "\<exists>e. validateField f (processedValue v f) = Some e \<and>
       handleInputChange v f st =
         Some (st\<lparr> formData := set_field f (processedValue v f) (formData st),
                  errors := (errors st)(f \<mapsto> e) \<rparr>)"
proof -
  obtain e where "validateField f (processedValue v f) = Some e"
    using validateField_Some by blast
  then show ?thesis by (simp add: handleInputChange_def)
qed

lemma get_set_field: "get_field f (set_field f p d) = p"
  by (cases f) simp_all

lemma set_set_field: "set_field f p (set_field f p d) = set_field f p d"
  by (cases f) simp_all

lemma overall_valid_isFormValid [simp]:
  "overall_valid (st\<lparr> isFormValid := b \<rparr>) = overall_valid st"
  by (simp add: overall_valid_def)

lemma update_eq:
  "\<exists>e. validateField f (processedValue v f) = Some e \<and>
       update f v st =
         Some (st\<lparr> formData := set_field f (processedValue v f) (formData st),
                  errors := (errors st)(f \<mapsto> e),
                  isFormValid :=
                    overall_valid (st\<lparr> formData := set_field f (processedValue v f) (formData st) \<rparr>) \<rparr>)"
proof -
  obtain e where e: "validateField f (processedValue v f) = Some e"
    and h: "handleInputChange v f st =
         Some (st\<lparr> formData := set_field f (processedValue v f) (formData st),
                  errors := (errors st)(f \<mapsto> e) \<rparr>)"
    using handleInputChange_eq by blast
  show ?thesis
    using e by (simp add: update_def h validityEffect_eq overall_valid_def)
qed

section \<open>Runs of the form\<close>

lemma session_reachable: "reachable st \<Longrightarrow> session es st = Some st' \<Longrightarrow> reachable st'"
proof (induction es arbitrary: st)
  case Nil
  then show ?case by simp
next
  case (Cons e es)
  from Cons.prems have live: "\<not> isSubmitted st"
    by (auto split: if_splits)
  with Cons.prems obtain st1 where st1: "fire e st = Some st1" and rest: "session es st1 = Some st'"
    by (auto split: option.splits)
  have "reachable st1"
  proof (cases e)
    case (Change f v)
    with st1 Cons.prems(1) live show ?thesis by (auto intro: after_update)
  next
    case (SelectCountry c)
    with st1 Cons.prems(1) live show ?thesis by (auto intro: after_setCountry)
  next
    case ClickCheckbox
    with st1 Cons.prems(1) live show ?thesis by (auto intro: after_toggleAgreement)
  next
    case SubmitForm
    with st1 Cons.prems(1) live show ?thesis by (auto intro: after_submit)
  qed
  then show ?case using rest by (rule Cons.IH)
qed

lemmas run_defs = update_def setCountry_def toggleAgreement_def handleInputChange_def
  handleCountryChange_def handleCheckboxChange_def validityEffect_def processedValue_def
  strip_non_digits_def keys_def
  validateField_fullName_def validateField_email_def validateField_password_def
  validateField_phone_def validateField_age_def validateField_country_def
  validateField_agreeToTerms_def parseInt_def is_radix_digit_def digit_value_def
  radix_value_def to_double_def Let_def initial_def

lemma john_doe_session: "session john_doe_events initial = Some john_doe"
  by (simp add: john_doe_events_def john_doe_def run_defs eval_defs)

lemma john_doe_reachable: "reachable john_doe"
  using session_reachable [OF mounted john_doe_session] .

lemma validityEffect_valid:
  "validityEffect s = Some s' \<Longrightarrow> isFormValid s' = overall_valid s'"
  by (auto simp: validityEffect_eq)

lemma update_valid: "update f v st = Some st' \<Longrightarrow> isFormValid st' = overall_valid st'"
  by (auto simp: update_def split: option.splits dest: validityEffect_valid)

lemma setCountry_valid: "setCountry c st = Some st' \<Longrightarrow> isFormValid st' = overall_valid st'"
  by (auto simp: setCountry_def split: option.splits dest: validityEffect_valid)

lemma toggleAgreement_valid:
  "toggleAgreement st = Some st' \<Longrightarrow> isFormValid st' = overall_valid st'"
  by (auto simp: toggleAgreement_def dest: validityEffect_valid)

lemma update_Some: "\<exists>st'. update f v st = Some st'"
  using update_eq [of f v st] by blast

lemma setCountry_eq:
  "setCountry c st =
     Some (st\<lparr> selectedCountry := c,
              formData := (formData st)\<lparr> country := JString c \<rparr>,
              errors := (errors st)(Country \<mapsto> (if c = [] then ''Please select a country'' else [])),
              isFormValid := overall_valid (st\<lparr> selectedCountry := c,
                               formData := (formData st)\<lparr> country := JString c \<rparr> \<rparr>) \<rparr>)"
  by (simp add: setCountry_def handleCountryChange_def handleInputChange_def processedValue_def
      validateField_country_def validityEffect_eq overall_valid_def)

lemma toggleAgreement_eq:
  "toggleAgreement st =
     Some (handleCheckboxChange st\<lparr> isFormValid := overall_valid (handleCheckboxChange st) \<rparr>)"
  by (simp add: toggleAgreement_def validityEffect_eq)

lemma overall_valid_initial: "\<not> overall_valid initial"
proof
  assume "overall_valid initial"
  then have "validateField FullName (get_field FullName (formData initial)) = Some []"
    unfolding overall_valid_def by blast
  then show False
    by (simp add: initial_def validateField_fullName_def)
qed

lemma submit_keeps: 
  "formData (fst (submit st)) = formData st" 
  "selectedCountry (fst (submit st)) = selectedCountry st"
  "errors (fst (submit st)) = errors st"
  "isFormValid (fst (submit st)) = isFormValid st"
  by (simp_all add: submit_def handleSubmit_def)

lemma reachable_valid: "reachable st \<Longrightarrow> isFormValid st = overall_valid st"
proof (induction rule: reachable.induct)
  case mounted
  show ?case using overall_valid_initial by (simp add: initial_def)
next
  case (after_update st f v st')
  then show ?case by (simp add: update_valid)
next
  case (after_setCountry st c st')
  then show ?case by (simp add: setCountry_valid)
next
  case (after_toggleAgreement st st')
  then show ?case by (simp add: toggleAgreement_valid)
next
  case (after_submit st)
  then show ?case by (simp add: submit_keeps overall_valid_def)
qed

section \<open>Submission, validity and error freshness\<close>

text \<open>
  C1. When the validity flag is false, \<open>submit\<close> changes nothing: the state, and with it
  the lifecycle, \<open>formData\<close> and \<open>errors\<close>, is returned as it was and nothing is
  produced. When the flag is true, the form becomes Submitted and the payload is
  \<open>formData\<close> with its \<open>country\<close> replaced by the selected country.
\<close>

theorem submit_gate:
  "(\<not> isFormValid st \<longrightarrow>
      submit st = (st, None) \<and> lifecycle_of (fst (submit st)) = lifecycle_of st) \<and>
   (isFormValid st \<longrightarrow>
      submit st = (st\<lparr> isSubmitted := True \<rparr>,
                   Some ((formData st)\<lparr> country := JString (selectedCountry st) \<rparr>)) \<and>
      lifecycle_of (fst (submit st)) = Submitted \<and>
      formData (fst (submit st)) = formData st \<and> errors (fst (submit st)) = errors st)"
  by (simp add: submit_def handleSubmit_def lifecycle_of_def)

theorem submit_gate_witness:
  "submit initial = (initial, None) \<and> lifecycle_of (fst (submit initial)) = Editing \<and>
   lifecycle_of (fst (submit john_doe)) = Submitted \<and>
   snd (submit john_doe) = Some (formData john_doe)"
  using submit_gate [of initial] submit_gate [of john_doe]
  by (simp add: initial_def john_doe_def lifecycle_of_def)

text \<open>
  C2. In every reachable state the validity flag is true exactly when every field's
  validator accepts the value \<open>formData\<close> holds for it and the country validator accepts
  the selected country; and \<open>update\<close>, \<open>setCountry\<close> and \<open>toggleAgreement\<close> each
  return a state in which this holds.
\<close>

theorem validity_invariant:
  "(reachable st \<longrightarrow> isFormValid st = overall_valid st) \<and>
   (\<exists>st'. update f v st = Some st' \<and> isFormValid st' = overall_valid st') \<and>
   (\<exists>st'. setCountry c st = Some st' \<and> isFormValid st' = overall_valid st') \<and>
   (\<exists>st'. toggleAgreement st = Some st' \<and> isFormValid st' = overall_valid st')"
proof (intro conjI impI)
  assume "reachable st"
  then show "isFormValid st = overall_valid st" by (rule reachable_valid)
next
  obtain st' where "update f v st = Some st'" using update_Some by blast
  then show "\<exists>st'. update f v st = Some st' \<and> isFormValid st' = overall_valid st'"
    using update_valid by blast
next
  show "\<exists>st'. setCountry c st = Some st' \<and> isFormValid st' = overall_valid st'"
    using setCountry_eq [of c st] setCountry_valid by blast
next
  show "\<exists>st'. toggleAgreement st = Some st' \<and> isFormValid st' = overall_valid st'"
    using toggleAgreement_eq [of st] toggleAgreement_valid by blast
qed

theorem validity_invariant_witness: "reachable john_doe \<and> overall_valid john_doe"
  using validity_invariant [of john_doe] john_doe_reachable
  by (simp add: john_doe_def)

text \<open>
  C3. After \<open>update f v\<close> the value stored for \<open>f\<close> is the normalised input and the
  entry of \<open>errors\<close> for \<open>f\<close> is the validator of \<open>f\<close> applied to that stored
  value; after \<open>toggleAgreement\<close> the same holds for \<open>agreeToTerms\<close>.
\<close>

theorem errors_fresh:
  "(\<exists>st'. update f v st = Some st' \<and> get_field f (formData st') = processedValue v f \<and>
          errors st' f = validateField f (get_field f (formData st'))) \<and>
   (\<exists>st'. toggleAgreement st = Some st' \<and>
          agreeToTerms (formData st') = JBoolean (falsy (agreeToTerms (formData st))) \<and>
          errors st' AgreeToTerms = validateField AgreeToTerms (agreeToTerms (formData st')))"
proof
  obtain e where "validateField f (processedValue v f) = Some e"
    and "update f v st =
         Some (st\<lparr> formData := set_field f (processedValue v f) (formData st),
                  errors := (errors st)(f \<mapsto> e),
                  isFormValid :=
                    overall_valid (st\<lparr> formData := set_field f (processedValue v f) (formData st) \<rparr>) \<rparr>)"
    using update_eq by blast
  then show "\<exists>st'. update f v st = Some st' \<and> get_field f (formData st') = processedValue v f \<and>
          errors st' f = validateField f (get_field f (formData st'))"
    by (simp add: get_set_field)
next
  show "\<exists>st'. toggleAgreement st = Some st' \<and>
          agreeToTerms (formData st') = JBoolean (falsy (agreeToTerms (formData st))) \<and>
          errors st' AgreeToTerms = validateField AgreeToTerms (agreeToTerms (formData st'))"
    by (simp add: toggleAgreement_eq handleCheckboxChange_def validateField_agreeToTerms_def
        Let_def)
qed

section \<open>Digits, special characters and decimal numerals\<close>

lemma is_digit_unat: "is_digit c \<longleftrightarrow> 48 \<le> unat c \<and> unat c \<le> 57"
  by (simp add: is_digit_def word_le_nat_alt)

lemma is_digit_chars: "is_digit c \<longleftrightarrow> c \<in> set (js ''0123456789'')"
proof
  assume "is_digit c"
  then have "48 \<le> unat c \<and> unat c \<le> 57" by (simp add: is_digit_unat)
  then have "unat c \<in> {48, 49, 50, 51, 52, 53, 54, 55, 56, 57}" by (simp, arith)
  then have "c \<in> {48, 49, 50, 51, 52, 53, 54, 55, 56, 57}"
    by (auto simp: word_unat_eq_iff)
  then show "c \<in> set (js ''0123456789'')" by (simp add: js_def)
next
  assume "c \<in> set (js ''0123456789'')"
  then show "is_digit c" by (auto simp: js_def is_digit_def)
qed

lemma is_special_chars: "is_special c \<longleftrightarrow> c \<in> set (js ''!@#$%^&*'')"
  by (auto simp: js_def is_special_def)

lemma digit_not_space: "is_digit c \<Longrightarrow> \<not> is_space c"
  by (auto simp: is_digit_chars js_def is_space_def)

lemma digit_value_digit: "is_digit c \<Longrightarrow> digit_value c < 10"
  by (auto simp: is_digit_chars js_def digit_value_def)

lemma digit_radix: "is_digit c \<Longrightarrow> is_radix_digit 10 c"
  by (simp add: is_radix_digit_def digit_value_digit)

lemma strip_sign_digits: "list_all is_digit v \<Longrightarrow> strip_sign v = (1, v)"
  by (cases v) (auto simp: is_digit_chars js_def)

lemma strip_prefix_digits: "list_all is_digit v \<Longrightarrow> strip_prefix v = (10, v)"
  by (cases v rule: strip_prefix.cases) (auto simp: is_digit_chars js_def)

lemma dropWhile_digits: "list_all is_digit v \<Longrightarrow> dropWhile is_space v = v"
  by (cases v) (auto simp: digit_not_space)

lemma takeWhile_digits: "list_all is_digit v \<Longrightarrow> takeWhile (is_radix_digit 10) v = v"
  by (induction v) (auto simp: digit_radix)

lemma parseInt_decimal:
  assumes "v \<noteq> []" and "list_all is_digit v"
  shows "parseInt v = to_double (int (radix_value 10 v))"
  using assms
  by (simp add: parseInt_def dropWhile_digits strip_sign_digits strip_prefix_digits
      takeWhile_digits)

lemma parseInt_signed:
  assumes "v \<noteq> []" and "list_all is_digit v" and "c = 0x2D \<or> c = 0x2B"
  shows "parseInt (c # v) = to_double ((if c = 0x2D then - 1 else 1) * int (radix_value 10 v))"
proof -
  have "\<not> is_space c"
    using assms(3) by (auto simp: is_space_def)
  then have "dropWhile is_space (c # v) = c # v" by simp
  moreover have "strip_sign (c # v) = (if c = 0x2D then - 1 else 1, v)"
    using assms(3) by auto
  ultimately show ?thesis
    using assms(1,2)
    by (simp add: parseInt_def strip_prefix_digits takeWhile_digits)
qed

lemma radix_value_snoc: "radix_value R (z @ [c]) = radix_value R z * R + digit_value c"
  by (simp add: radix_value_def)

lemma digit_value_unat: "is_digit c \<Longrightarrow> digit_value c = unat c - 48"
  by (simp add: digit_value_def is_digit_def)

lemma radix_value_decimal: "list_all is_digit ds \<Longrightarrow> radix_value 10 ds = decimal_value ds"
proof (induction ds rule: rev_induct)
  case Nil
  show ?case by (simp add: radix_value_def decimal_value_def)
next
  case (snoc c ds)
  then have "radix_value 10 ds = decimal_value ds" and "is_digit c" by simp_all
  then show ?case
    by (simp add: radix_value_snoc digit_value_unat decimal_value_def)
qed

lemma is_decimal_digits: "is_decimal ds \<longleftrightarrow> ds \<noteq> [] \<and> list_all is_digit ds"
  by (simp add: is_decimal_def is_digit_chars [abs_def])

lemma parseInt_integer_numeral:
  assumes "integer_numeral v = Some n"
  shows "parseInt v = to_double n"
proof (cases v)
  case Nil
  with assms show ?thesis by simp
next
  case (Cons c cs)
  show ?thesis
  proof (cases "c = 0x2D \<or> c = 0x2B")
    case True
    with assms Cons have d: "is_decimal cs"
      and n: "n = (if c = 0x2D then - 1 else 1) * int (decimal_value cs)"
      by (auto split: if_splits)
    from d have "cs \<noteq> []" and "list_all is_digit cs"
      by (simp_all add: is_decimal_digits)
    then show ?thesis
      using True n Cons by (simp add: parseInt_signed radix_value_decimal)
  next
    case False
    with assms Cons have d: "is_decimal v" and n: "n = int (decimal_value v)"
      by (auto split: if_splits)
    from d have "v \<noteq> []" and "list_all is_digit v"
      by (simp_all add: is_decimal_digits)
    then show ?thesis
      using n by (simp add: parseInt_decimal radix_value_decimal)
  qed
qed

lemma outside_range_to_double:
  "isNaN (to_double n) \<or> less_than (to_double n) 18 \<or> greater_than (to_double n) 65 \<longleftrightarrow>
     \<not> (18 \<le> n \<and> n \<le> 65)"
  by (auto simp: to_double_def)

lemmas age_eval_defs = js_def is_space_def parseInt_def is_radix_digit_def digit_value_def
  radix_value_def to_double_def Let_def

lemma phone_update:
  "update Phone (RString v) st =
     Some (st\<lparr> formData := (formData st)\<lparr> phone := JString (filter is_digit v) \<rparr>,
              errors := (errors st)(Phone \<mapsto>
                (if filter is_digit v = [] then ''Phone number is required''
                 else if length (filter is_digit v) \<noteq> 10
                   then ''Please enter a valid 10-digit phone number''
                 else [])),
              isFormValid :=
                overall_valid (st\<lparr> formData := (formData st)\<lparr> phone := JString (filter is_digit v) \<rparr> \<rparr>) \<rparr>)"
proof -
  have p: "processedValue (RString v) Phone = JString (filter is_digit v)"
    by (simp add: processedValue_def strip_non_digits_def)
  have "list_all is_digit (filter is_digit v)"
    by (simp add: list_all_iff)
  then have e: "validateField Phone (JString (filter is_digit v)) =
      Some (if filter is_digit v = [] then ''Phone number is required''
            else if length (filter is_digit v) \<noteq> 10
              then ''Please enter a valid 10-digit phone number''
            else [])"
    by (simp add: phone_string)
  show ?thesis
    using update_eq [of Phone "RString v" st] unfolding p e by auto
qed

section \<open>The field rules and the update path\<close>

text \<open>
  C4. On a string the email validator answers, in this order: the required message for
  the empty string; the format message when the string is not of the shape
  \<open>local@domain.tld\<close>; the suffix message when it ends with neither \<open>.com\<close> nor
  \<open>.net\<close>; otherwise the empty message. \<open>a@b.com\<close> passes, \<open>a@b.org\<close> gets the suffix
  message and \<open>not-an-email\<close> the format message.
\<close>

theorem email_rules:
  "validateField Email (JString v) =
     Some (if v = [] then ''Email is required''
           else if \<not> local_at_domain_tld v then ''Please enter a valid email address''
           else if \<not> suffix (js ''.com'') v \<and> \<not> suffix (js ''.net'') v
             then ''Email must end with .com or .net''
           else []) \<and>
   validateField Email (JString (js ''a@b.com'')) = Some [] \<and>
   validateField Email (JString (js ''a@b.org'')) = Some ''Email must end with .com or .net'' \<and>
   validateField Email (JString (js ''not-an-email'')) =
     Some ''Please enter a valid email address''"
proof (intro conjI)
  show "validateField Email (JString v) =
     Some (if v = [] then ''Email is required''
           else if \<not> local_at_domain_tld v then ''Please enter a valid email address''
           else if \<not> suffix (js ''.com'') v \<and> \<not> suffix (js ''.net'') v
             then ''Email must end with .com or .net''
           else [])"
    by (simp add: email_string)
qed (simp_all add: validateField_email_def eval_defs)

theorem email_rules_witness:
  "local_at_domain_tld (js ''john@test.com'') \<and> \<not> local_at_domain_tld (js ''john@test'')"
proof -
  have "validateField Email (JString (js ''john@test.com'')) = Some []"
    and "validateField Email (JString (js ''john@test'')) =
           Some ''Please enter a valid email address''"
    by (simp_all add: validateField_email_def eval_defs)
  then show ?thesis
    using email_rules [of "js ''john@test.com''"] email_rules [of "js ''john@test''"]
    by (auto simp: js_def split: if_splits)
qed

text \<open>
  C5. On a string the password validator answers with the first failing check of:
  required, at least 8 code units, contains one of \<open>0123456789\<close>, contains one of
  \<open>!@#$%^&*\<close>; and with the empty message when none fails. \<open>abc12345\<close> lacks a special
  character and \<open>abcd123!\<close> passes.
\<close>

theorem password_rules:
  "validateField Password (JString v) =
     Some (if v = [] then ''Password is required''
           else if length v < 8 then ''Password must be at least 8 characters''
           else if \<not> (\<exists>c \<in> set v. c \<in> set (js ''0123456789''))
             then ''Password must include at least one number''
           else if \<not> (\<exists>c \<in> set v. c \<in> set (js ''!@#$%^&*''))
             then ''Password must include at least one special character''
           else []) \<and>
   validateField Password (JString (js ''abc12345'')) =
     Some ''Password must include at least one special character'' \<and>
   validateField Password (JString (js ''abcd123!'')) = Some []"
proof (intro conjI)
  show "validateField Password (JString v) =
     Some (if v = [] then ''Password is required''
           else if length v < 8 then ''Password must be at least 8 characters''
           else if \<not> (\<exists>c \<in> set v. c \<in> set (js ''0123456789''))
             then ''Password must include at least one number''
           else if \<not> (\<exists>c \<in> set v. c \<in> set (js ''!@#$%^&*''))
             then ''Password must include at least one special character''
           else [])"
    unfolding is_digit_chars [symmetric] is_special_chars [symmetric]
    by (simp add: password_string)
qed (simp_all add: validateField_password_def eval_defs)

text \<open>
  What \<open>parseInt\<close> accepts: leading white space, a sign and a radix prefix, and
  whatever follows the digits is ignored. An integer beyond \<open>2^53\<close> comes back rounded.
\<close>

lemma parseInt_reads_prefix:
  "parseInt (js ''18abc'') = Exact 18" "parseInt (js ''18.9'') = Exact 18"
  "parseInt (js '' 20'') = Exact 20" "parseInt (js ''0x12'') = Exact 18"
  "parseInt (js ''-30'') = Exact (- 30)" "parseInt (js ''abc'') = NaN"
  "parseInt (js ''9007199254740993'') = Rounded False"
  by (simp_all add: eval_defs parseInt_def is_radix_digit_def digit_value_def radix_value_def
      to_double_def)

text \<open>
  On a string that does write out an integer the validator answers as its message says:
  it passes exactly when the integer lies between 18 and 65.
\<close>

lemma age_on_integer_numerals:
  assumes "integer_numeral v = Some n"
  shows "validateField Age (JString v) = Some [] \<longleftrightarrow> 18 \<le> n \<and> n \<le> 65"
proof -
  have "v \<noteq> []" using assms by auto
  moreover have "parseInt v = to_double n"
    using assms by (rule parseInt_integer_numeral)
  ultimately show ?thesis
    by (simp add: validateField_age_def Let_def outside_range_to_double)
qed

text \<open>
  C6. The age validator does not answer with an error for every string that is not an
  integer between 18 and 65: \<open>65.9\<close>, which a number input delivers as typed, is not
  such an integer, yet \<open>parseInt\<close> reads 65 from it, the validator answers with the empty
  message, and \<open>update\<close> records no error for the age. The examples \<open>17\<close>, \<open>65\<close> and
  \<open>abc\<close> are answered as expected.
\<close>

theorem age_accepts_fraction:
  "\<not> integer_in_range (js ''65.9'') \<and>
   parseInt (js ''65.9'') = Exact 65 \<and>
   validateField Age (JString (js ''65.9'')) = Some [] \<and>
   (\<exists>st'. update Age (RString (js ''65.9'')) st = Some st' \<and>
          age (formData st') = JString (js ''65.9'') \<and> errors st' Age = Some []) \<and>
   validateField Age (JString (js ''17'')) = Some ''Age must be between 18 and 65'' \<and>
   validateField Age (JString (js ''65'')) = Some [] \<and>
   validateField Age (JString (js ''abc'')) = Some ''Age must be between 18 and 65''"
proof (intro conjI)
  show "\<not> integer_in_range (js ''65.9'')"
    by (simp add: integer_in_range_def is_decimal_def js_def)
  show "parseInt (js ''65.9'') = Exact 65"
    by (simp add: age_eval_defs)
  have v: "validateField Age (JString (js ''65.9'')) = Some []"
    by (simp add: validateField_age_def age_eval_defs)
  then show "validateField Age (JString (js ''65.9'')) = Some []" .
  have "processedValue (RString (js ''65.9'')) Age = JString (js ''65.9'')"
    by (simp add: processedValue_def)
  then show "\<exists>st'. update Age (RString (js ''65.9'')) st = Some st' \<and>
          age (formData st') = JString (js ''65.9'') \<and> errors st' Age = Some []"
    using update_eq [of Age "RString (js ''65.9'')" st] v by auto
qed (simp_all add: validateField_age_def age_eval_defs)

text \<open>
  C7. \<open>update\<close> on the phone field with a raw string removes every code unit that is not
  a digit, stores what is left and records the validator's answer for it, where the
  validator checks, in order: required, digits only, exactly 10 code units.
  \<open>12a3456789\<close> is stored as \<open>123456789\<close> with the length message; \<open>1234567890\<close> is
  stored unchanged with the empty message.
\<close>

theorem phone_strip_then_validate:
  "(\<exists>st'. update Phone (RString v) st = Some st' \<and>
          phone (formData st') = JString (filter is_digit v) \<and>
          errors st' Phone = validateField Phone (JString (filter is_digit v))) \<and>
   validateField Phone (JString s) =
     Some (if s = [] then ''Phone number is required''
           else if \<not> list_all is_digit s then ''Please enter numbers only''
           else if length s \<noteq> 10 then ''Please enter a valid 10-digit phone number''
           else []) \<and>
   (\<exists>st'. update Phone (RString (js ''12a3456789'')) st = Some st' \<and>
          phone (formData st') = JString (js ''123456789'') \<and>
          errors st' Phone = Some ''Please enter a valid 10-digit phone number'') \<and>
   (\<exists>st'. update Phone (RString (js ''1234567890'')) st = Some st' \<and>
          phone (formData st') = JString (js ''1234567890'') \<and>
          errors st' Phone = Some [])"
proof (intro conjI)
  have "list_all is_digit (filter is_digit v)"
    by (simp add: list_all_iff)
  then show "\<exists>st'. update Phone (RString v) st = Some st' \<and>
          phone (formData st') = JString (filter is_digit v) \<and>
          errors st' Phone = validateField Phone (JString (filter is_digit v))"
    by (simp add: phone_update phone_string)
  show "validateField Phone (JString s) =
     Some (if s = [] then ''Phone number is required''
           else if \<not> list_all is_digit s then ''Please enter numbers only''
           else if length s \<noteq> 10 then ''Please enter a valid 10-digit phone number''
           else [])"
    by (simp add: phone_string)
  show "\<exists>st'. update Phone (RString (js ''12a3456789'')) st = Some st' \<and>
          phone (formData st') = JString (js ''123456789'') \<and>
          errors st' Phone = Some ''Please enter a valid 10-digit phone number''"
    by (simp add: phone_update) (simp add: js_def is_digit_def)
  show "\<exists>st'. update Phone (RString (js ''1234567890'')) st = Some st' \<and>
          phone (formData st') = JString (js ''1234567890'') \<and>
          errors st' Phone = Some []"
    by (simp add: phone_update) (simp add: js_def is_digit_def)
qed

text \<open>
  C8. \<open>setCountry v\<close> stores \<open>v\<close> in the selected-country cell and in the \<open>country\<close>
  entry of \<open>formData\<close>, so the two agree afterwards; and a payload produced by \<open>submit\<close>
  carries the selected-country cell as its \<open>country\<close>.
\<close>

theorem setCountry_sync:
  "(\<exists>st'. setCountry v st = Some st' \<and> selectedCountry st' = v \<and>
          country (formData st') = JString v \<and>
          country (formData st') = JString (selectedCountry st')) \<and>
   (isFormValid s \<longrightarrow>
      (\<exists>p. snd (submit s) = Some p \<and> country p = JString (selectedCountry s)))"
  by (simp add: setCountry_eq submit_def handleSubmit_def)

theorem setCountry_sync_witness:
  "\<exists>p. snd (submit john_doe) = Some p \<and> country p = JString (js ''usa'')"
  using setCountry_sync [of "js ''usa''" initial john_doe]
  by (simp add: john_doe_def)

text \<open>
  C9. Running \<open>update f v\<close> a second time on the state it produced gives that same state
  again, for every field, raw value and starting state.
\<close>

theorem update_idempotent:
  "\<exists>st'. update f v st = Some st' \<and> update f v st' = Some st'"
proof -
  let ?p = "processedValue v f"
  obtain e where e: "validateField f ?p = Some e"
    using validateField_Some by blast
  have once: "update f v s =
         Some (s\<lparr> formData := set_field f ?p (formData s),
                  errors := (errors s)(f \<mapsto> e),
                  isFormValid := overall_valid (s\<lparr> formData := set_field f ?p (formData s) \<rparr>) \<rparr>)"
    for s
    using update_eq [of f v s] e by auto
  show ?thesis
    by (simp add: once set_set_field overall_valid_def)
qed

text \<open>
  C10. After \<open>update\<close> on the phone field with a raw string, the stored value is empty or
  matches \<open>/^\d+$/\<close>, so the recorded error is never the numbers-only message: it is the
  required message, the length message or the empty message.
\<close>

theorem phone_numbers_only_unreachable:
  "\<exists>st' s. update Phone (RString v) st = Some st' \<and> phone (formData st') = JString s \<and>
      (s = [] \<or> test digitsOnlyRegex s) \<and> list_all is_digit s \<and>
      errors st' Phone = validateField Phone (JString s) \<and>
      errors st' Phone \<noteq> Some ''Please enter numbers only'' \<and>
      (errors st' Phone = Some ''Phone number is required'' \<or>
       errors st' Phone = Some ''Please enter a valid 10-digit phone number'' \<or>
       errors st' Phone = Some [])"
proof -
  have d: "list_all is_digit (filter is_digit v)"
    by (simp add: list_all_iff)
  then have "filter is_digit v = [] \<or> test digitsOnlyRegex (filter is_digit v)"
    by (simp add: digitsOnlyRegex_def test_Anchored_OneOrMore del: test.simps)
  with d show ?thesis
    by (simp add: phone_update phone_string)
qed

end
